theory Spec2Isabelle
  imports Complex_Main "HOL-Library.Sublist"
begin

section \<open>Python values used by the tools\<close>

text \<open>
  The tools pass around Python dictionaries parsed from JSON. A dictionary whose keys
  matter one by one is an association list (\<open>dict_get\<close> is Python's
  \<^verbatim>\<open>d.get(k, default)\<close>); a dictionary with a fixed set of optional keys is a
  record of options, \<open>None\<close> standing for an absent key. Python's integers are
  \<open>int\<close>. A display's \<^verbatim>\<open>size_inches\<close> is an integer or a finite float and is only ever
  compared with integer constants; every finite float is a rational number and Python
  compares a float with an integer by value, so it is a \<open>rat\<close>.
\<close>

definition dict_get :: "('k \<times> 'v) list \<Rightarrow> 'k \<Rightarrow> 'v \<Rightarrow> 'v" where
  "dict_get d k dflt = (case map_of d k of None \<Rightarrow> dflt | Some v \<Rightarrow> v)"



text \<open>
  Strings are lists of characters, taken to be ASCII. \<open>lower\<close> is
  \<^verbatim>\<open>str.lower()\<close>, \<open>str_int\<close> is \<^verbatim>\<open>str(i)\<close> of an integer and
  \<open>str_opt_int\<close> of an integer or \<^verbatim>\<open>None\<close>, \<open>isdigit\<close> and \<open>int_of_str\<close> are
  \<^verbatim>\<open>str.isdigit()\<close> and \<^verbatim>\<open>int(s)\<close> on a string of digits, and
  \<open>sublist a b\<close> is \<^verbatim>\<open>a in b\<close> on two strings.
\<close>

definition lower_char :: "char \<Rightarrow> char" where
  "lower_char c =
     (case map_of (zip ''ABCDEFGHIJKLMNOPQRSTUVWXYZ'' ''abcdefghijklmnopqrstuvwxyz'') c of
        None \<Rightarrow> c | Some l \<Rightarrow> l)"

definition lower :: "string \<Rightarrow> string" where
  "lower s = map lower_char s"

function str_nat :: "nat \<Rightarrow> string" where
  "str_nat n = (if n < 10 then [''0123456789'' ! n]
                else str_nat (n div 10) @ [''0123456789'' ! (n mod 10)])"
  by pat_completeness auto
termination
  by (relation "measure id") auto

declare str_nat.simps [simp del]

definition str_int :: "int \<Rightarrow> string" where
  "str_int i = (if i < 0 then CHR ''-'' # str_nat (nat (- i)) else str_nat (nat i))"

definition str_opt_int :: "int option \<Rightarrow> string" where
  "str_opt_int v = (case v of None \<Rightarrow> ''None'' | Some i \<Rightarrow> str_int i)"

definition str_opt :: "string option \<Rightarrow> string" where
  "str_opt v = (case v of None \<Rightarrow> ''None'' | Some s \<Rightarrow> s)"

definition quoted :: "string \<Rightarrow> string" where
  "quoted s = [CHR 0x27] @ s @ [CHR 0x27]"




section \<open>The data of the tools\<close>

text \<open>
  A display descriptor, as \<^verbatim>\<open>get_display_info\<close> assembles it; only the keys the
  classifier reads are kept.
\<close>

type_synonym resolution_dict = "(string \<times> int) list"

record display =
  effective_resolution :: "resolution_dict option"
  resolution :: "resolution_dict option"
  size_inches :: "rat option"
  is_primary :: "bool option"

text \<open>
  A window as the window manager lists it, with the keys \<^verbatim>\<open>window-id\<close>,
  \<^verbatim>\<open>app-name\<close>, \<^verbatim>\<open>workspace\<close> and \<^verbatim>\<open>is-focused\<close>; a monitor with its
  \<^verbatim>\<open>name\<close>.
\<close>

record window =
  win_id :: "int option"
  win_app_name :: "string option"
  win_workspace :: "string option"
  win_is_focused :: "bool option"

record monitor =
  monitor_name :: "string option"

text \<open>
  A stored preset: the JSON document \<^verbatim>\<open>save_focus_preset\<close> writes, and each of
  its window entries. \<^verbatim>\<open>json.load\<close> of what \<^verbatim>\<open>json.dump\<close> wrote gives the
  document back, so the store holds the document itself.
\<close>

record preset_window =
  app_name :: "string option"
  workspace :: "string option"
  is_focused :: bool

record preset_data =
  name :: string
  description :: string
  display_category :: "string option"
  created_at :: string
  windows :: "preset_window list"
  monitors :: "string option list"

section \<open>aerospace.py: errors and the command runner\<close>

datatype details =
    Available_presets "string list"
  | Suggestion string
  | Window_lookup int "int option list"
  | Valid_options "string list"
  | Available_monitors "string option list"
  | Command_report "string list" int string
  | No_details

datatype AeroSpaceError = AeroSpaceError (code: string) (message: string) (details: details)

definition ERROR_WINDOW_NOT_FOUND :: string where
  "ERROR_WINDOW_NOT_FOUND = ''WINDOW_NOT_FOUND''"

definition ERROR_NO_WINDOW_FOCUSED :: string where
  "ERROR_NO_WINDOW_FOCUSED = ''NO_WINDOW_FOCUSED''"

text \<open>
  The window manager, the display inventory, the clock and the preset directory are
  outside the program. The world records the action commands run so far
  (\<open>issued\<close>, oldest first, each the argument list given to
  \<^verbatim>\<open>run_aerospace_command\<close>, failed ones included), and what the outside answers
  after a given history of commands: whether an action command raises
  (\<open>wm_error\<close>), the windows \<^verbatim>\<open>list-windows --all\<close> lists, the focused window,
  the monitors, the display descriptors \<^verbatim>\<open>get_display_info\<close> assembles, and the
  real fullscreen state of each window, which no query of the window manager exposes.
  \<open>preset_dir\<close> is the preset directory: \<open>None\<close> when it does not exist, otherwise
  its \<^verbatim>\<open>*.json\<close> files in the order \<^verbatim>\<open>glob\<close> lists them, each under its stem
  (preset names are plain file names). \<open>utc_now\<close> is the clock's ISO timestamp.
\<close>

record world =
  issued :: "string list list"
  wm_error :: "string list list \<Rightarrow> string list \<Rightarrow> AeroSpaceError option"
  wm_windows :: "string list list \<Rightarrow> AeroSpaceError + window list"
  wm_focused :: "string list list \<Rightarrow> AeroSpaceError + window option"
  wm_monitors :: "string list list \<Rightarrow> AeroSpaceError + monitor list"
  wm_displays :: "string list list \<Rightarrow> AeroSpaceError + display list"
  wm_fullscreen :: "string list list \<Rightarrow> int \<Rightarrow> bool"
  preset_dir :: "(string \<times> preset_data) list option"
  utc_now :: string

type_synonym 'a outcome = "(AeroSpaceError + 'a) \<times> world"

text \<open>
  \<^verbatim>\<open>run_aerospace_command(*args)\<close> with \<^verbatim>\<open>check=True\<close>, for an action command:
  the command is run, and the call raises when the window manager reports a failure.
  No caller in the modelled tools reads the returned output of an action command.
\<close>

definition run_aerospace_command :: "string list \<Rightarrow> world \<Rightarrow> unit outcome" where
  "run_aerospace_command args w =
     (let w' = w\<lparr>issued := issued w @ [args]\<rparr> in
      case wm_error w (issued w) args of
        Some e \<Rightarrow> (Inl e, w')
      | None \<Rightarrow> (Inr (), w'))"

text \<open>Sequencing: an exception of the first step ends the call.\<close>

definition and_then :: "'a outcome \<Rightarrow> ('a \<Rightarrow> world \<Rightarrow> 'b outcome) \<Rightarrow> 'b outcome" where
  "and_then r f = (case r of (Inl e, w) \<Rightarrow> (Inl e, w) | (Inr x, w) \<Rightarrow> f x w)"

definition list_windows :: "world \<Rightarrow> AeroSpaceError + window list" where
  "list_windows w = wm_windows w (issued w)"


definition get_focused_window :: "world \<Rightarrow> AeroSpaceError + window option" where
  "get_focused_window w = wm_focused w (issued w)"

definition get_window_by_id :: "int \<Rightarrow> world \<Rightarrow> AeroSpaceError + window option" where
  "get_window_by_id wid w =
     (case list_windows w of
        Inl e \<Rightarrow> Inl e
      | Inr ws \<Rightarrow> Inr (find (\<lambda>window. win_id window = Some wid) ws))"

text \<open>\<^verbatim>\<open>"focus", "--window-id", str(window.get("window-id"))\<close>\<close>

definition focus_command :: "window \<Rightarrow> string list" where
  "focus_command window = [''focus'', ''--window-id'', str_opt_int (win_id window)]"

section \<open>tools/display.py: the display classifier\<close>


text \<open>
  \<^verbatim>\<open>display.get("effective_resolution") or display.get("resolution", {})\<close>: the
  effective resolution when the key is present and the dictionary is not empty (an
  empty dictionary is falsy), otherwise the plain resolution, otherwise \<^verbatim>\<open>{}\<close>.
\<close>

definition display_resolution :: "display \<Rightarrow> resolution_dict" where
  "display_resolution d =
     (case effective_resolution d of
        Some (kv # r) \<Rightarrow> kv # r
      | _ \<Rightarrow> (case resolution d of None \<Rightarrow> [] | Some r \<Rightarrow> r))"

definition total_pixels :: "display \<Rightarrow> int" where
  "total_pixels d =
     (let res = display_resolution d;
          width = dict_get res ''width'' 0;
          height = dict_get res ''height'' 0
      in width * height)"

definition calculate_display_category :: "display list \<Rightarrow> string \<times> string" where
  "calculate_display_category displays =
     (let num_displays = length displays in
      if num_displays = 0 then (''unknown'', ''No displays detected'')
      else if num_displays \<ge> 3 then
        (''triple_plus'',
         ''Three or more monitors: focus=primary, reference=secondary, communication=tertiary'')
      else if num_displays = 2 then
        (''dual_display'', ''Two monitors: focus on primary, reference on secondary'')
      else
        let d = displays ! 0;
            pixels = total_pixels d;
            size = (case size_inches d of None \<Rightarrow> 0 | Some s \<Rightarrow> s)
        in
        if size > 0 then
          (if size \<ge> 27 then
             (''large_single'',
              ''Large single display (27'' @ [CHR 0x22] @
              ''+): centered focus with flanking reference'')
           else if size \<ge> 15 then
             (''medium_single'',
              ''Medium single display (15-24'' @ [CHR 0x22] @ ''): 70/30 split with sidebar'')
           else
             (''small_single'',
              ''Small single display (<15'' @ [CHR 0x22] @
              ''): fullscreen focus, workspaces for others''))
        else
          (if pixels \<ge> 3686400 then
             (''large_single'', ''Large single display: centered focus with flanking reference'')
           else if pixels \<ge> 1036800 then
             (''medium_single'', ''Medium single display: 70/30 split with sidebar'')
           else
             (''small_single'',
              ''Small single display: fullscreen focus, workspaces for others'')))"

definition get_size_category :: "resolution_dict \<Rightarrow> string" where
  "get_size_category res =
     (let width = dict_get res ''width'' 0;
          height = dict_get res ''height'' 0;
          pixels = width * height
      in if pixels \<ge> 3686400 then ''large''
         else if pixels \<ge> 1036800 then ''medium''
         else ''small'')"

text \<open>
  \<^verbatim>\<open>get_display_info()["displays"]\<close>: the descriptors merged from the monitor
  listing and the display inventory, or the error the monitor listing raised.
\<close>

definition get_display_info :: "world \<Rightarrow> AeroSpaceError + display list" where
  "get_display_info w = wm_displays w (issued w)"

record category_info =
  category :: string
  primary_size :: string
  secondary_sizes :: "string list"
  recommended_strategy :: string
  category_description :: string

definition strategies :: "(string \<times> string) list" where
  "strategies =
     [(''small_single'', ''fullscreen_focus''),
      (''medium_single'', ''split_sidebar''),
      (''large_single'', ''centered_focus''),
      (''dual_display'', ''primary_focus_secondary_reference''),
      (''triple_plus'', ''dedicated_monitors'')]"

definition get_display_category :: "world \<Rightarrow> AeroSpaceError + category_info" where
  "get_display_category w =
     (case get_display_info w of
        Inl e \<Rightarrow> Inl e
      | Inr displays \<Rightarrow>
          (let (cat, descr) = calculate_display_category displays;
               primary =
                 (if displays = [] then ''medium''
                  else get_size_category (display_resolution
                         (case find (\<lambda>d. is_primary d = Some True) displays of
                            Some d \<Rightarrow> d | None \<Rightarrow> displays ! 0)));
               secondary =
                 map (\<lambda>d. get_size_category (display_resolution d))
                   (filter (\<lambda>d. is_primary d \<noteq> Some True) displays)
           in Inr \<lparr>category = cat, primary_size = primary, secondary_sizes = secondary,
                   recommended_strategy = dict_get strategies cat ''fullscreen_focus'',
                   category_description = descr\<rparr>))"

section \<open>tools/focus.py: application categories\<close>

definition APP_CATEGORIES :: "(string \<times> string list) list" where
  "APP_CATEGORIES =
     [(''communication'',
       [''Slack'', ''Discord'', ''Mail'', ''Messages'', ''Microsoft Teams'', ''Zoom'',
        ''Telegram'', ''WhatsApp'', ''Signal'']),
      (''development'',
       [''Visual Studio Code'', ''Code'', ''Xcode'', ''Terminal'', ''iTerm'', ''iTerm2'',
        ''IntelliJ IDEA'', ''PyCharm'', ''WebStorm'', ''Android Studio'', ''Sublime Text'',
        ''Atom'', ''Vim'', ''Neovim'', ''Emacs'']),
      (''reference'',
       [''Google Chrome'', ''Chrome'', ''Safari'', ''Firefox'', ''Arc'', ''Notes'',
        ''Notion'', ''Obsidian'', ''Evernote'', ''Bear'', ''Preview'', ''Finder'']),
      (''media'',
       [''Spotify'', ''Music'', ''Apple Music'', ''YouTube'', ''VLC'', ''Photos'',
        ''QuickTime Player'', ''IINA''])]"

text \<open>
  The membership test written out in both \<^verbatim>\<open>_get_app_category\<close> and
  \<^verbatim>\<open>move_app_category_to_monitor\<close>:
  \<^verbatim>\<open>app_name in apps or any(app.lower() in app_name.lower() for app in apps)\<close>.
\<close>

definition app_in_list :: "string \<Rightarrow> string list \<Rightarrow> bool" where
  "app_in_list app apps =
     (app \<in> set apps \<or> list_ex (\<lambda>known. sublist (lower known) (lower app)) apps)"

definition get_app_category :: "string \<Rightarrow> string option" where
  "get_app_category app =
     map_option fst (find (\<lambda>(cat, apps). app_in_list app apps) APP_CATEGORIES)"

text \<open>\<^verbatim>\<open>window.get("app-name", "")\<close>\<close>

definition app_name_of :: "window \<Rightarrow> string" where
  "app_name_of window = (case win_app_name window of None \<Rightarrow> [] | Some a \<Rightarrow> a)"

section \<open>tools/focus.py: the preset store\<close>





record load_result =
  preset_loaded :: string
  adapted :: bool
  windows_arranged :: nat

text \<open>
  One round of the loop over the recorded entries: the inner loop stops at the first
  listed window whose \<^verbatim>\<open>app-name\<close> equals the entry's \<^verbatim>\<open>app_name\<close>
  (\<^verbatim>\<open>break\<close>), focuses it, moves it when the entry's workspace is truthy, and
  counts it when no command raised. The result is the increment of
  \<^verbatim>\<open>windows_arranged\<close>.
\<close>

definition arrange_entry :: "window list \<Rightarrow> preset_window \<Rightarrow> world \<Rightarrow> nat \<times> world" where
  "arrange_entry all_windows entry w =
     (case find (\<lambda>window. win_app_name window = app_name entry) all_windows of
        None \<Rightarrow> (0, w)
      | Some window \<Rightarrow>
          (case run_aerospace_command (focus_command window) w of
             (Inl e, w1) \<Rightarrow> (0, w1)
           | (Inr u, w1) \<Rightarrow>
               (case workspace entry of
                  Some (c # cs) \<Rightarrow>
                    (case run_aerospace_command [''move-node-to-workspace'', c # cs] w1 of
                       (Inl e, w2) \<Rightarrow> (0, w2)
                     | (Inr u', w2) \<Rightarrow> (1, w2))
                | _ \<Rightarrow> (1, w1))))"

fun arrange_entries :: "window list \<Rightarrow> preset_window list \<Rightarrow> nat \<Rightarrow> world \<Rightarrow> nat \<times> world" where
  "arrange_entries all_windows [] arranged w = (arranged, w)"
| "arrange_entries all_windows (entry # rest) arranged w =
     (let (n, w1) = arrange_entry all_windows entry w
      in arrange_entries all_windows rest (arranged + n) w1)"

definition load_focus_preset :: "string \<Rightarrow> bool \<Rightarrow> world \<Rightarrow> load_result outcome" where
  "load_focus_preset nm adapt_to_displays w =
     (case (case preset_dir w of None \<Rightarrow> None | Some files \<Rightarrow> map_of files nm) of
        None \<Rightarrow>
          (let available = (case preset_dir w of None \<Rightarrow> [] | Some files \<Rightarrow> map fst files)
           in (Inl (AeroSpaceError ''PRESET_NOT_FOUND''
                      (''Preset '' @ quoted nm @ '' not found'')
                      (Available_presets available)), w))
      | Some data \<Rightarrow>
     (case get_display_category w of
        Inl e \<Rightarrow> (Inl e, w)
      | Inr display_cat \<Rightarrow>
          (let current_category = Some (category display_cat);
               saved_category = display_category data
           in if current_category \<noteq> saved_category \<and> \<not> adapt_to_displays then
                (Inl (AeroSpaceError ''DISPLAY_MISMATCH''
                        (''Display configuration changed from '' @ quoted (str_opt saved_category)
                           @ '' to '' @ quoted (str_opt current_category))
                        (Suggestion ''Set adapt_to_displays=True to adapt the preset'')), w)
              else
                (case list_windows w of
                   Inl e \<Rightarrow> (Inl e, w)
                 | Inr all_windows \<Rightarrow>
                     (let (arranged, w') = arrange_entries all_windows (windows data) 0 w
                      in (Inr \<lparr>preset_loaded = nm,
                                adapted = (current_category \<noteq> saved_category),
                                windows_arranged = arranged\<rparr>, w'))))))"

section \<open>tools/focus.py: applying a focus preset\<close>



text \<open>
  The loop that sorts the listed windows into reference windows and windows to hide,
  skipping the focus window.
\<close>

fun categorize_windows ::
  "int option \<Rightarrow> string list \<Rightarrow> bool \<Rightarrow> window list \<Rightarrow> window list \<times> window list" where
  "categorize_windows focus_id reference_apps hide_communication [] = ([], [])"
| "categorize_windows focus_id reference_apps hide_communication (window # rest) =
     (let (reference_wins, hidden_wins) =
            categorize_windows focus_id reference_apps hide_communication rest;
          app = app_name_of window;
          app_category = get_app_category app
      in if win_id window = focus_id then (reference_wins, hidden_wins)
         else if app \<in> set reference_apps \<or> app_category = Some ''reference'' then
           (window # reference_wins, hidden_wins)
         else if hide_communication \<and> app_category = Some ''communication'' then
           (reference_wins, window # hidden_wins)
         else (reference_wins, hidden_wins))"

text \<open>
  The loops of the shape \<^verbatim>\<open>try: focus the window; move it; record it; except
  AeroSpaceError: pass\<close>: each window is focused and then moved with the given move
  command; a window whose focus or move raises is skipped. The result lists the
  windows recorded.
\<close>

fun focus_and_move :: "string list \<Rightarrow> window list \<Rightarrow> world \<Rightarrow> window list \<times> world" where
  "focus_and_move move_args [] w = ([], w)"
| "focus_and_move move_args (window # rest) w =
     (case run_aerospace_command (focus_command window) w of
        (Inl e, w1) \<Rightarrow> focus_and_move move_args rest w1
      | (Inr u, w1) \<Rightarrow>
          (case run_aerospace_command move_args w1 of
             (Inl e, w2) \<Rightarrow> focus_and_move move_args rest w2
           | (Inr u', w2) \<Rightarrow>
               (let (moved, w3) = focus_and_move move_args rest w2 in (window # moved, w3))))"




text \<open>
  The built-in layouts. The result is the arrangement of the focus window and the
  reference windows moved to the next monitor.
\<close>

definition apply_layout ::
  "string \<Rightarrow> monitor list \<Rightarrow> window list \<Rightarrow> world \<Rightarrow> (string \<times> window list) outcome" where
  "apply_layout preset mons reference_wins w =
     (if preset = ''small_single_focus'' then
        and_then (run_aerospace_command [''fullscreen''] w)
          (\<lambda>_ w1. (Inr (''fullscreen'', []), w1))
      else if preset = ''medium_split'' then
        and_then (run_aerospace_command [''layout'', ''h_tiles''] w)
          (\<lambda>_ w1. and_then (run_aerospace_command [''resize'', ''width'', ''+30%''] w1)
             (\<lambda>_ w2. (Inr (''tiled_70'', []), w2)))
      else if preset = ''large_centered'' then
        and_then (run_aerospace_command [''layout'', ''h_tiles''] w)
          (\<lambda>_ w1. (Inr (''centered'', []), w1))
      else if preset = ''dual_monitor_focus'' then
        (if length mons \<ge> 2 then
           and_then (run_aerospace_command [''fullscreen''] w)
             (\<lambda>_ w1. let (moved, w2) =
                           focus_and_move [''move-node-to-monitor'', ''next''] reference_wins w1
                      in (Inr (''fullscreen'', moved), w2))
         else (Inr (''normal'', []), w))
      else if preset = ''triple_monitor_focus'' then
        (if length mons \<ge> 3 then
           and_then (run_aerospace_command [''fullscreen''] w)
             (\<lambda>_ w1. (Inr (''fullscreen'', []), w1))
         else (Inr (''normal'', []), w))
      else (Inr (''normal'', []), w))"


section \<open>tools/focus.py: moving an application category to a monitor\<close>







section \<open>tools/window.py: the fullscreen toggle\<close>

record fullscreen_result =
  toggled_window_id :: int
  fullscreen :: bool

definition toggle_and_report :: "int \<Rightarrow> world \<Rightarrow> fullscreen_result outcome" where
  "toggle_and_report actual_window_id w =
     and_then (run_aerospace_command [''fullscreen''] w)
       (\<lambda>_ w1. case get_window_by_id actual_window_id w1 of
                  Inl e \<Rightarrow> (Inl e, w1)
                | Inr updated_window \<Rightarrow>
                    (Inr \<lparr>toggled_window_id = actual_window_id,
                          fullscreen = (updated_window \<noteq> None)\<rparr>, w1))"

definition fullscreen_toggle :: "int option \<Rightarrow> world \<Rightarrow> fullscreen_result outcome" where
  "fullscreen_toggle window_id w =
     (case window_id of
        Some wid \<Rightarrow>
          (case get_window_by_id wid w of
             Inl e \<Rightarrow> (Inl e, w)
           | Inr None \<Rightarrow>
               (case list_windows w of
                  Inl e \<Rightarrow> (Inl e, w)
                | Inr available \<Rightarrow>
                    (Inl (AeroSpaceError ERROR_WINDOW_NOT_FOUND
                            (''Window with ID '' @ str_int wid @ '' not found'')
                            (Window_lookup wid (map win_id available))), w))
           | Inr (Some window) \<Rightarrow>
               and_then (run_aerospace_command [''focus'', ''--window-id'', str_int wid] w)
                 (\<lambda>_ w1. toggle_and_report wid w1))
      | None \<Rightarrow>
          (case get_focused_window w of
             Inl e \<Rightarrow> (Inl e, w)
           | Inr None \<Rightarrow>
               (Inl (AeroSpaceError ERROR_NO_WINDOW_FOCUSED ''No window is currently focused''
                       (Suggestion ''Focus a window first'')), w)
           | Inr (Some focused) \<Rightarrow>
               toggle_and_report (case win_id focused of None \<Rightarrow> 0 | Some i \<Rightarrow> i) w))"

section \<open>The reapplication of a preset, as the specification words it\<close>

text \<open>
  The specification's account of loading, to compare with the loop of the source: an
  entry has a live match when some listed window has exactly its application name;
  the commands for an entry are none without a live match, and otherwise the focus
  of the first such window followed, when the entry records a workspace, by the move
  to it.
\<close>

definition has_live_match :: "window list \<Rightarrow> preset_window \<Rightarrow> bool" where
  "has_live_match live entry = list_ex (\<lambda>window. win_app_name window = app_name entry) live"


text \<open>
  The specification's account of category membership: the application name contains,
  case-insensitively, one of the category's known names.
\<close>

definition contains_known :: "string \<Rightarrow> string list \<Rightarrow> bool" where
  "contains_known app apps = list_ex (\<lambda>known. sublist (lower known) (lower app)) apps"


text \<open>A window manager none of whose action commands fails.\<close>

definition never_fails :: "world \<Rightarrow> bool" where
  "never_fails w = (wm_error w = (\<lambda>history args. None))"

section \<open>Sample inputs\<close>

definition sized :: "rat \<Rightarrow> int \<Rightarrow> int \<Rightarrow> display" where
  "sized s w h =
     \<lparr>effective_resolution = Some [(''width'', w), (''height'', h)],
      resolution = None, size_inches = Some s, is_primary = None\<rparr>"

definition unsized :: "int \<Rightarrow> int \<Rightarrow> display" where
  "unsized w h =
     \<lparr>effective_resolution = Some [(''width'', w), (''height'', h)],
      resolution = None, size_inches = None, is_primary = None\<rparr>"


definition sample_windows :: "window list" where
  "sample_windows =
     [\<lparr>win_id = Some 1234, win_app_name = Some ''Firefox'', win_workspace = Some ''1'',
       win_is_focused = None\<rparr>,
      \<lparr>win_id = Some 5678, win_app_name = Some ''Terminal'', win_workspace = Some ''1'',
       win_is_focused = None\<rparr>,
      \<lparr>win_id = Some 9012, win_app_name = Some ''Visual Studio Code'',
       win_workspace = Some ''dev'', win_is_focused = None\<rparr>]"

definition sample_monitors :: "monitor list" where
  "sample_monitors =
     [\<lparr>monitor_name = Some ''Built-in Retina Display''\<rparr>,
      \<lparr>monitor_name = Some ''DELL U2720Q''\<rparr>]"

text \<open>
  A world in which every command succeeds: the three sample windows, the first of
  them focused, two monitors, one 1920 x 1080 display of unknown size (a
  \<open>medium_single\<close> configuration), and no preset directory yet.
\<close>

definition quiet_world :: world where
  "quiet_world =
     \<lparr>issued = [],
      wm_error = (\<lambda>history args. None),
      wm_windows = (\<lambda>history. Inr sample_windows),
      wm_focused = (\<lambda>history. Inr (Some (sample_windows ! 0))),
      wm_monitors = (\<lambda>history. Inr sample_monitors),
      wm_displays = (\<lambda>history. Inr [unsized 1920 1080]),
      wm_fullscreen = (\<lambda>history wid. False),
      preset_dir = None,
      utc_now = ''2024-01-01T00:00:00+00:00''\<rparr>"

text \<open>
  Two stored presets: \<open>work\<close>, saved under \<open>medium_single\<close>, with two entries for
  Firefox, one for Slack (not running in the sample worlds) and one for Terminal
  without a workspace; and \<open>desk\<close>, the same arrangement saved under
  \<open>dual_display\<close>.
\<close>

definition work_preset :: preset_data where
  "work_preset =
     \<lparr>name = ''work'', description = ''Focus preset: work'',
      display_category = Some ''medium_single'',
      created_at = ''2024-01-01T00:00:00+00:00'',
      windows =
        [\<lparr>app_name = Some ''Firefox'', workspace = Some ''2'', is_focused = True\<rparr>,
         \<lparr>app_name = Some ''Slack'', workspace = Some ''3'', is_focused = False\<rparr>,
         \<lparr>app_name = Some ''Terminal'', workspace = None, is_focused = False\<rparr>,
         \<lparr>app_name = Some ''Firefox'', workspace = Some ''4'', is_focused = False\<rparr>],
      monitors = [Some ''Built-in Retina Display'']\<rparr>"

definition desk_preset :: preset_data where
  "desk_preset = work_preset\<lparr>name := ''desk'', display_category := Some ''dual_display''\<rparr>"

definition stored_world :: world where
  "stored_world =
     quiet_world\<lparr>preset_dir := Some [(''work'', work_preset), (''desk'', desk_preset)]\<rparr>"



text \<open>The sample windows with a second Firefox window and a mail client.\<close>

definition crowded_windows :: "window list" where
  "crowded_windows =
     sample_windows @
     [\<lparr>win_id = Some 4321, win_app_name = Some ''Firefox'', win_workspace = Some ''1'',
       win_is_focused = None\<rparr>,
      \<lparr>win_id = Some 2222, win_app_name = Some ''Airmail 5'', win_workspace = Some ''1'',
       win_is_focused = None\<rparr>,
      \<lparr>win_id = Some 9999, win_app_name = Some ''Slack'', win_workspace = Some ''1'',
       win_is_focused = None\<rparr>]"

definition crowded_world :: world where
  "crowded_world = stored_world\<lparr>wm_windows := (\<lambda>history. Inr crowded_windows)\<rparr>"

text \<open>
  A world in which the focused window is closed by the time the fullscreen command
  has run: it is no longer listed afterwards.
\<close>

definition vanishing_world :: world where
  "vanishing_world =
     quiet_world\<lparr>wm_windows :=
       (\<lambda>history. if [''fullscreen''] \<in> set history then Inr (tl sample_windows)
                   else Inr sample_windows)\<rparr>"

section \<open>Properties of the classifier\<close>

lemma category_by_count:
  "fst (calculate_display_category ds) =
     (if length ds = 0 then ''unknown''
      else if 3 \<le> length ds then ''triple_plus''
      else if length ds = 2 then ''dual_display''
      else fst (calculate_display_category [ds ! 0]))"
proof (cases ds)
  case Nil
  then show ?thesis by (simp add: calculate_display_category_def)
next
  case (Cons d rest)
  then show ?thesis
    by (cases rest) (simp_all add: calculate_display_category_def Let_def)
qed


text \<open>
  Claim C1. The category depends on the number of displays only, except for a single
  display: no display gives \<open>unknown\<close>, exactly two give \<open>dual_display\<close>, three or more
  give \<open>triple_plus\<close>, and for two or more displays the whole result (category and
  description) is the same for any other list of that length, whatever the sizes and
  resolutions in it. With exactly one display the size is read: changing only
  \<open>size_inches\<close> can change the category.
\<close>

theorem C1_category_by_display_count:
  "fst (calculate_display_category []) = ''unknown''
   \<and> (length ds2 = 2 \<longrightarrow> fst (calculate_display_category ds2) = ''dual_display'')
   \<and> (3 \<le> length ds3 \<longrightarrow> fst (calculate_display_category ds3) = ''triple_plus'')
   \<and> (2 \<le> length ds \<and> length ds' = length ds \<longrightarrow>
        calculate_display_category ds' = calculate_display_category ds)
   \<and> (\<exists>d s. fst (calculate_display_category [d\<lparr>size_inches := s\<rparr>])
              \<noteq> fst (calculate_display_category [d]))"
proof (intro conjI impI)
  show "fst (calculate_display_category []) = ''unknown''"
    by (simp add: category_by_count)
  show "fst (calculate_display_category ds2) = ''dual_display''" if "length ds2 = 2"
    using that by (simp add: category_by_count)
  show "fst (calculate_display_category ds3) = ''triple_plus''" if "3 \<le> length ds3"
    using that by (auto simp add: category_by_count)
  show "calculate_display_category ds' = calculate_display_category ds"
    if "2 \<le> length ds \<and> length ds' = length ds"
    using that by (simp add: calculate_display_category_def Let_def)
  have "fst (calculate_display_category [(sized 13 1366 768)\<lparr>size_inches := Some 27\<rparr>])
          \<noteq> fst (calculate_display_category [sized 13 1366 768])"
    by (simp add: calculate_display_category_def sized_def Let_def)
  then show "\<exists>d s. fst (calculate_display_category [d\<lparr>size_inches := s\<rparr>])
                \<noteq> fst (calculate_display_category [d])"
    by blast
qed

theorem C1_category_by_display_count_witness:
  "length [sized 13 1366 768, unsized 2560 1440] = 2
   \<and> fst (calculate_display_category [sized 13 1366 768, unsized 2560 1440]) = ''dual_display''
   \<and> 3 \<le> length [sized 30 1 1, sized 5 1 1, unsized 0 0, unsized 1920 1080]
   \<and> fst (calculate_display_category [sized 30 1 1, sized 5 1 1, unsized 0 0, unsized 1920 1080])
       = ''triple_plus''
   \<and> calculate_display_category [unsized 0 0, sized 40 9000 9000]
       = calculate_display_category [sized 13 1366 768, unsized 2560 1440]"
  using C1_category_by_display_count
    [of "[sized 13 1366 768, unsized 2560 1440]"
        "[sized 30 1 1, sized 5 1 1, unsized 0 0, unsized 1920 1080]"
        "[sized 13 1366 768, unsized 2560 1440]"
        "[unsized 0 0, sized 40 9000 9000]"]
  by simp




section \<open>The command runner and the loops over windows\<close>


lemma run_eq:
  "run_aerospace_command args w =
     (case wm_error w (issued w) args of Some e \<Rightarrow> Inl e | None \<Rightarrow> Inr (),
      w\<lparr>issued := issued w @ [args]\<rparr>)"
  by (simp add: run_aerospace_command_def Let_def split: option.splits)


lemma never_fails_issued [simp]: "never_fails (w\<lparr>issued := h\<rparr>) = never_fails w"
  by (simp add: never_fails_def)

lemma never_fails_run [simp]:
  "never_fails (snd (run_aerospace_command args w)) = never_fails w"
  by (simp add: run_aerospace_command_def never_fails_def Let_def split: option.splits)


text \<open>One entry of a preset: what is run, and what is counted.\<close>

lemma has_live_match_find:
  "has_live_match live e \<longleftrightarrow> find (\<lambda>window. win_app_name window = app_name e) live \<noteq> None"
  by (auto simp add: has_live_match_def list_ex_iff find_None_iff)


lemma arrange_entry_no_match:
  "\<not> has_live_match live e \<Longrightarrow> arrange_entry live e w = (0, w)"
  by (simp add: has_live_match_find arrange_entry_def)
















text \<open>The sample worlds, evaluated.\<close>

lemmas world_defs = quiet_world_def stored_world_def crowded_world_def vanishing_world_def

lemma quiet_category:
  "get_display_category quiet_world =
     Inr \<lparr>category = ''medium_single'', primary_size = ''medium'', secondary_sizes = [''medium''],
          recommended_strategy = ''split_sidebar'',
          category_description = ''Medium single display: 70/30 split with sidebar''\<rparr>"
  by (simp add: get_display_category_def get_display_info_def quiet_world_def
      calculate_display_category_def unsized_def total_pixels_def display_resolution_def
      dict_get_def get_size_category_def strategies_def Let_def)

lemma stored_category:
  "get_display_category stored_world = get_display_category quiet_world"
  "get_display_category crowded_world = get_display_category quiet_world"
  by (simp_all add: get_display_category_def get_display_info_def world_defs)

lemmas run_defs = arrange_entry_def run_aerospace_command_def focus_command_def
  str_opt_int_def str_int_def str_nat.simps Let_def

lemma stored_arrange:
  "arrange_entries sample_windows (windows work_preset) 0 stored_world =
     (3, stored_world\<lparr>issued :=
           [[''focus'', ''--window-id'', ''1234''], [''move-node-to-workspace'', ''2''],
            [''focus'', ''--window-id'', ''5678''],
            [''focus'', ''--window-id'', ''1234''], [''move-node-to-workspace'', ''4'']]\<rparr>)"
  by (simp add: run_defs world_defs work_preset_def sample_windows_def)




section \<open>Properties of the preset store\<close>




text \<open>
  Claim C3. For a stored preset and a display query that succeeds: when the stored
  category differs from the current one, loading with \<open>adapt_to_displays\<close> false
  raises \<open>DISPLAY_MISMATCH\<close> and returns the world as it was (no command issued),
  while loading with it true goes on to the loop over the entries and, the window
  listing succeeding, reports \<open>adapted = True\<close>; when the two categories are equal,
  the load reports \<open>adapted = False\<close> and gives the same outcome whatever the flag.
\<close>

theorem C3_display_mismatch:
  assumes "preset_dir w = Some files" and "map_of files nm = Some data"
    and "get_display_category w = Inr dc"
  shows "(display_category data \<noteq> Some (category dc) \<longrightarrow>
            load_focus_preset nm False w =
              (Inl (AeroSpaceError ''DISPLAY_MISMATCH''
                      (''Display configuration changed from ''
                         @ quoted (str_opt (display_category data))
                         @ '' to '' @ quoted (category dc))
                      (Suggestion ''Set adapt_to_displays=True to adapt the preset'')), w))
     \<and> (display_category data \<noteq> Some (category dc) \<and> list_windows w = Inr live \<longrightarrow>
            load_focus_preset nm True w =
              (Inr \<lparr>preset_loaded = nm, adapted = True,
                    windows_arranged = fst (arrange_entries live (windows data) 0 w)\<rparr>,
               snd (arrange_entries live (windows data) 0 w)))
     \<and> (display_category data = Some (category dc) \<and> list_windows w = Inr live \<longrightarrow>
            (\<forall>adapt. load_focus_preset nm adapt w =
              (Inr \<lparr>preset_loaded = nm, adapted = False,
                    windows_arranged = fst (arrange_entries live (windows data) 0 w)\<rparr>,
               snd (arrange_entries live (windows data) 0 w))))"
  using assms
  by (auto simp add: load_focus_preset_def Let_def str_opt_def split: sum.splits prod.splits)

theorem C3_display_mismatch_witness:
  "display_category desk_preset \<noteq> Some ''medium_single''
   \<and> load_focus_preset ''desk'' False stored_world =
       (Inl (AeroSpaceError ''DISPLAY_MISMATCH''
               (''Display configuration changed from '' @ quoted ''dual_display''
                  @ '' to '' @ quoted ''medium_single'')
               (Suggestion ''Set adapt_to_displays=True to adapt the preset'')), stored_world)
   \<and> fst (load_focus_preset ''desk'' True stored_world) =
       Inr \<lparr>preset_loaded = ''desk'', adapted = True, windows_arranged = 3\<rparr>
   \<and> display_category work_preset = Some ''medium_single''
   \<and> fst (load_focus_preset ''work'' False stored_world) =
       Inr \<lparr>preset_loaded = ''work'', adapted = False, windows_arranged = 3\<rparr>
   \<and> fst (load_focus_preset ''work'' True stored_world) =
       Inr \<lparr>preset_loaded = ''work'', adapted = False, windows_arranged = 3\<rparr>"
proof -
  have dir: "preset_dir stored_world = Some [(''work'', work_preset), (''desk'', desk_preset)]"
    by (simp add: world_defs)
  have desk: "map_of [(''work'', work_preset), (''desk'', desk_preset)] ''desk'' = Some desk_preset"
    and work: "map_of [(''work'', work_preset), (''desk'', desk_preset)] ''work'' = Some work_preset"
    by simp_all
  have cat: "get_display_category stored_world =
     Inr \<lparr>category = ''medium_single'', primary_size = ''medium'', secondary_sizes = [''medium''],
          recommended_strategy = ''split_sidebar'',
          category_description = ''Medium single display: 70/30 split with sidebar''\<rparr>"
    by (simp add: stored_category quiet_category)
  have live: "list_windows stored_world = Inr sample_windows"
    by (simp add: list_windows_def world_defs)
  have entries: "windows desk_preset = windows work_preset"
    "display_category desk_preset = Some ''dual_display''"
    "display_category work_preset = Some ''medium_single''"
    by (simp_all add: desk_preset_def work_preset_def)
  from C3_display_mismatch [OF dir desk cat, of sample_windows]
       C3_display_mismatch [OF dir work cat, of sample_windows]
  show ?thesis
    by (simp add: live entries stored_arrange str_opt_def)
qed










section \<open>Properties of the application categories\<close>

lemma app_in_list_iff: "app_in_list app apps = contains_known app apps"
  by (auto simp add: app_in_list_def contains_known_def list_ex_iff)



lemma get_app_category_None:
  "(c, apps) \<in> set APP_CATEGORIES \<Longrightarrow> contains_known app apps \<Longrightarrow>
   get_app_category app \<noteq> None"
  by (auto simp add: get_app_category_def app_in_list_iff find_None_iff)





lemma never_fails_focus_and_move [simp]:
  "never_fails (snd (focus_and_move args wins w)) = never_fails w"
  by (induction wins arbitrary: w)
     (simp_all add: run_eq case_prod_beta split: option.splits)

lemma never_fails_apply_layout [simp]:
  "never_fails (snd (apply_layout p mons refs w)) = never_fails w"
  by (simp add: apply_layout_def and_then_def run_eq case_prod_beta split: option.splits)


lemma categorize_hidden_off: "snd (categorize_windows fid ra False ws) = []"
  by (induction ws) (auto simp add: case_prod_beta Let_def)














section \<open>Properties of the fullscreen toggle\<close>

lemma find_listed: "(find P xs \<noteq> None) = list_ex P xs"
  by (auto simp add: find_None_iff list_ex_iff)

lemma toggle_and_report_success:
  assumes "toggle_and_report wid w = (Inr r, w')"
  shows "toggled_window_id r = wid \<and> issued w' = issued w @ [[''fullscreen'']]
         \<and> (\<exists>ws. list_windows w' = Inr ws
               \<and> fullscreen r = list_ex (\<lambda>window. win_id window = Some wid) ws)"
proof (cases "wm_error w (issued w) [''fullscreen'']")
  case (Some e)
  with assms show ?thesis
    by (simp add: toggle_and_report_def and_then_def run_eq)
next
  case None
  let ?w1 = "w\<lparr>issued := issued w @ [[''fullscreen'']]\<rparr>"
  from None assms obtain ws where ws: "list_windows ?w1 = Inr ws"
    by (cases "list_windows ?w1")
       (auto simp add: toggle_and_report_def and_then_def run_eq get_window_by_id_def)
  with None assms show ?thesis
    by (auto simp add: toggle_and_report_def and_then_def run_eq get_window_by_id_def
        find_listed simp del: not_None_eq)
qed

lemma fullscreen_toggle_success:
  assumes "fullscreen_toggle window_id w = (Inr r, w')"
  shows "(\<exists>before. issued w' = before @ [[''fullscreen'']])
         \<and> (\<exists>ws. list_windows w' = Inr ws
               \<and> fullscreen r = list_ex (\<lambda>window. win_id window = Some (toggled_window_id r)) ws)"
proof (cases window_id)
  case None
  with assms obtain focused where "get_focused_window w = Inr (Some focused)"
    by (cases "get_focused_window w")
       (auto simp add: fullscreen_toggle_def split: option.splits)
  with None assms have "toggle_and_report
      (case win_id focused of None \<Rightarrow> 0 | Some i \<Rightarrow> i) w = (Inr r, w')"
    by (simp add: fullscreen_toggle_def)
  from toggle_and_report_success [OF this] show ?thesis by auto
next
  case (Some wid)
  let ?w1 = "w\<lparr>issued := issued w @ [[''focus'', ''--window-id'', str_int wid]]\<rparr>"
  from Some assms have "toggle_and_report wid ?w1 = (Inr r, w')"
    by (auto simp add: fullscreen_toggle_def and_then_def run_eq
        split: sum.splits option.splits)
  from toggle_and_report_success [OF this] show ?thesis by auto
qed

lemma fullscreen_toggle_blind:
  "fullscreen_toggle window_id (w\<lparr>wm_fullscreen := f\<rparr>) =
     map_prod id (\<lambda>u. u\<lparr>wm_fullscreen := f\<rparr>) (fullscreen_toggle window_id w)"
  by (simp add: fullscreen_toggle_def toggle_and_report_def and_then_def run_eq
      get_window_by_id_def list_windows_def get_focused_window_def
      split: option.splits sum.splits)


text \<open>
  Claim C10, as stated, fails when the toggled window is no longer listed after the
  command: the source reports \<open>fullscreen\<close> as true only under
  \<^verbatim>\<open>if updated_window\<close>. In the world where the focused window 1234 is gone once
  the fullscreen command has run, the toggle is issued and the response says
  \<open>fullscreen = False\<close>.
\<close>

theorem C10_fullscreen_not_always_true:
  "fst (fullscreen_toggle None vanishing_world) =
     Inr \<lparr>toggled_window_id = 1234, fullscreen = False\<rparr>
   \<and> issued (snd (fullscreen_toggle None vanishing_world)) = [[''fullscreen'']]"
  by (simp add: fullscreen_toggle_def toggle_and_report_def and_then_def run_eq
      get_window_by_id_def list_windows_def get_focused_window_def vanishing_world_def
      quiet_world_def sample_windows_def)


text \<open>
  Claim C10, amended. \<open>fullscreen_toggle\<close> never reads the real fullscreen state:
  its outcome is the same whatever that state is. When it succeeds, the fullscreen
  command is the last command it issued, and \<open>fullscreen\<close> in the response is true
  exactly when the toggled window is still listed after that command.
\<close>

theorem C10_fullscreen_reported_blindly:
  "(fullscreen_toggle window_id w = (Inr r, w') \<longrightarrow>
      (\<exists>before. issued w' = before @ [[''fullscreen'']])
      \<and> (\<exists>ws. list_windows w' = Inr ws
            \<and> fullscreen r =
                list_ex (\<lambda>window. win_id window = Some (toggled_window_id r)) ws))
   \<and> fullscreen_toggle window_id (w\<lparr>wm_fullscreen := f\<rparr>) =
       map_prod id (\<lambda>u. u\<lparr>wm_fullscreen := f\<rparr>) (fullscreen_toggle window_id w)"
  using fullscreen_toggle_success [of window_id w r w']
    fullscreen_toggle_blind [where window_id = window_id and w = w and f = f]
  by blast

theorem C10_fullscreen_reported_blindly_witness:
  "fullscreen_toggle (Some 5678) quiet_world =
     (Inr \<lparr>toggled_window_id = 5678, fullscreen = True\<rparr>,
      quiet_world\<lparr>issued := [[''focus'', ''--window-id'', ''5678''], [''fullscreen'']]\<rparr>)
   \<and> list_windows
        (quiet_world\<lparr>issued := [[''focus'', ''--window-id'', ''5678''], [''fullscreen'']]\<rparr>)
       = Inr sample_windows
   \<and> list_ex (\<lambda>window. win_id window = Some 5678) sample_windows
   \<and> \<not> wm_fullscreen quiet_world
         [[''focus'', ''--window-id'', ''5678''], [''fullscreen'']] 5678
   \<and> fst (fullscreen_toggle (Some 5678) (quiet_world\<lparr>wm_fullscreen := (\<lambda>history wid. True)\<rparr>))
       = Inr \<lparr>toggled_window_id = 5678, fullscreen = True\<rparr>"
proof -
  let ?w' = "quiet_world\<lparr>issued := [[''focus'', ''--window-id'', ''5678''], [''fullscreen'']]\<rparr>"
  let ?r = "\<lparr>toggled_window_id = 5678, fullscreen = True\<rparr>"
  have run: "fullscreen_toggle (Some 5678) quiet_world = (Inr ?r, ?w')"
    by (simp add: fullscreen_toggle_def toggle_and_report_def and_then_def run_eq
        get_window_by_id_def list_windows_def quiet_world_def sample_windows_def
        str_int_def str_nat.simps)
  have live: "list_windows ?w' = Inr sample_windows"
    by (simp add: list_windows_def quiet_world_def)
  have real: "\<not> wm_fullscreen quiet_world
         [[''focus'', ''--window-id'', ''5678''], [''fullscreen'']] 5678"
    by (simp add: quiet_world_def)
  note inst = C10_fullscreen_reported_blindly
    [where window_id = "Some 5678" and w = quiet_world and r = ?r and w' = ?w'
       and f = "\<lambda>history wid. True"]
  from inst run live have listed: "list_ex (\<lambda>window. win_id window = Some 5678) sample_windows"
    by simp
  from inst run
  have "fst (fullscreen_toggle (Some 5678) (quiet_world\<lparr>wm_fullscreen := (\<lambda>history wid. True)\<rparr>))
       = Inr ?r"
    by simp
  with run live real listed show ?thesis
    by simp
qed


end
